theory Spec2Isabelle
  imports Main "HOL-Library.Sublist"
begin

section \<open>Strings and exceptions\<close>

text \<open>
  A Python \<open>str\<close> is a sequence of Unicode code points, so it is modelled as a list of
  natural numbers. ASCII parts of a literal are written with \<open>ascii\<close>; the other code
  points of the literals of \<open>main.py\<close> are written out as numerals.
\<close>

type_synonym str = "nat list"

definition ascii :: "string \<Rightarrow> str" where
  "ascii s = map of_char s"

text \<open>
  \<open>str.isspace\<close> of one code point, the table \<open>str.strip()\<close> uses:
  U+0009..U+000D, U+001C..U+0020, U+0085, U+00A0, U+1680, U+2000..U+200A, U+2028,
  U+2029, U+202F, U+205F, U+3000.
\<close>

definition isspace :: "nat \<Rightarrow> bool" where
  "isspace c \<longleftrightarrow>
     (0x09 \<le> c \<and> c \<le> 0x0D) \<or> (0x1C \<le> c \<and> c \<le> 0x20) \<or> c = 0x85 \<or> c = 0xA0 \<or>
     c = 0x1680 \<or> (0x2000 \<le> c \<and> c \<le> 0x200A) \<or> c = 0x2028 \<or> c = 0x2029 \<or>
     c = 0x202F \<or> c = 0x205F \<or> c = 0x3000"

definition lstrip :: "str \<Rightarrow> str" where
  "lstrip s = dropWhile isspace s"

definition rstrip :: "str \<Rightarrow> str" where
  "rstrip s = rev (dropWhile isspace (rev s))"

definition strip :: "str \<Rightarrow> str" where
  "strip s = rstrip (lstrip s)"

text \<open>\<open>s.lstrip(chars)\<close>: drops the leading code points that occur in \<open>chars\<close>.\<close>

definition lstrip_chars :: "str \<Rightarrow> str \<Rightarrow> str" where
  "lstrip_chars s chars = dropWhile (\<lambda>c. c \<in> set chars) s"

definition startswith :: "str \<Rightarrow> str \<Rightarrow> bool" where
  "startswith s p \<longleftrightarrow> take (length p) s = p"

text \<open>
  Exceptions. \<open>TelegramError name msg\<close> is an instance of \<open>telegram.error.TelegramError\<close>
  or of one of its subclasses, with \<open>type(e).__name__ = name\<close> and \<open>str(e) = msg\<close>; it is
  what \<open>except TelegramError\<close> catches. \<open>OtherError name msg\<close> is any other exception.
\<close>

datatype exn = RuntimeError str | TelegramError str str | OtherError str str

section \<open>Configuration (module level, lines 27 to 42)\<close>

text \<open>\<open>REQUIRED_CHAT\<close> is an \<open>int\<close> or a \<open>str\<close>.\<close>

datatype int_or_str = PyInt int | PyStr str

record config =
  BOT_TOKEN :: str
  REQUIRED_CHAT_RAW :: str
  JOIN_URL :: str
  SILENT_FOR_NOT_JOINED :: bool
  REQUIRED_CHAT :: int_or_str

text \<open>
  Three built-ins of the interpreter are driven by large Unicode tables (\<open>str.lower\<close>,
  \<open>str.isdigit\<close>) or have an input grammar of their own (\<open>int\<close>, which raises
  \<open>ValueError\<close>). They are parameters of the loader, so every theorem about the loader
  holds whatever they compute.
\<close>

record builtins =
  str_lower :: "str \<Rightarrow> str"
  str_isdigit :: "str \<Rightarrow> bool"
  int_of_str :: "str \<Rightarrow> exn + int"

text \<open>\<open>os.getenv(key, default)\<close> on the environment as it is after \<open>load_dotenv()\<close>.\<close>

definition getenv :: "(str \<rightharpoonup> str) \<Rightarrow> str \<Rightarrow> str \<Rightarrow> str" where
  "getenv environ key dflt = (case environ key of None \<Rightarrow> dflt | Some v \<Rightarrow> v)"

text \<open>The messages of the two \<open>RuntimeError\<close>s of lines 35 and 37.\<close>

definition BOT_TOKEN_unset :: str where
  "BOT_TOKEN_unset =
     ascii ''BOT_TOKEN '' @ [0x672A, 0x8BBE, 0x7F6E, 0xFF1A, 0x8BF7, 0x5728] @ ascii '' .env '' @
     [0x914D, 0x7F6E] @ ascii '' BOT_TOKEN=xxx''"

definition REQUIRED_CHAT_unset :: str where
  "REQUIRED_CHAT_unset =
     ascii ''REQUIRED_CHAT '' @ [0x672A, 0x8BBE, 0x7F6E, 0xFF1A, 0x8BF7, 0x5728] @ ascii '' .env '' @
     [0x914D, 0x7F6E] @ ascii '' REQUIRED_CHAT=@xxx '' @ [0x6216] @ ascii '' -100xxx''"

text \<open>
  The module body up to line 40: the four settings are read and trimmed, the two checks
  raise, and \<open>REQUIRED_CHAT\<close> becomes an \<open>int\<close> when the raw value without its leading
  minus signs is all digits (the conversion itself may raise).
\<close>

definition load_config :: "builtins \<Rightarrow> (str \<rightharpoonup> str) \<Rightarrow> exn + config" where
  "load_config py environ =
     (let bot_token = strip (getenv environ (ascii ''BOT_TOKEN'') []);
          required_chat_raw = strip (getenv environ (ascii ''REQUIRED_CHAT'') []);
          join_url = strip (getenv environ (ascii ''JOIN_URL'') []);
          silent_for_not_joined =
            (str_lower py (strip (getenv environ (ascii ''SILENT_FOR_NOT_JOINED'') (ascii ''false'')))
               = ascii ''true'')
      in if bot_token = [] then Inl (RuntimeError BOT_TOKEN_unset)
         else if required_chat_raw = [] then Inl (RuntimeError REQUIRED_CHAT_unset)
         else if str_isdigit py (lstrip_chars required_chat_raw (ascii ''-''))
           then (case int_of_str py required_chat_raw of
                   Inl e \<Rightarrow> Inl e
                 | Inr n \<Rightarrow>
                     Inr \<lparr>BOT_TOKEN = bot_token, REQUIRED_CHAT_RAW = required_chat_raw,
                          JOIN_URL = join_url, SILENT_FOR_NOT_JOINED = silent_for_not_joined,
                          REQUIRED_CHAT = PyInt n\<rparr>)
           else Inr \<lparr>BOT_TOKEN = bot_token, REQUIRED_CHAT_RAW = required_chat_raw,
                     JOIN_URL = join_url, SILENT_FOR_NOT_JOINED = silent_for_not_joined,
                     REQUIRED_CHAT = PyStr required_chat_raw\<rparr>)"

definition BTN_RECHECK :: str where
  "BTN_RECHECK = ascii ''recheck_join''"

text \<open>
  What \<open>main()\<close> builds before it starts polling: the application with its token, the
  handlers in the order they are added, and the flag that drops the updates queued
  while the process was down. The health listener thread is not part of the model.
\<close>

datatype handler =
    CommandHandler str
  | CallbackQueryHandler str
  | MessageHandler
  | ErrorHandler

record application =
  token :: str
  handlers :: "handler list"
  drop_pending_updates :: bool

definition main :: "config \<Rightarrow> application" where
  "main cfg =
     \<lparr>token = BOT_TOKEN cfg,
      handlers = [CommandHandler (ascii ''start''),
                  CallbackQueryHandler (ascii ''^'' @ BTN_RECHECK @ ascii ''$''),
                  MessageHandler, ErrorHandler],
      drop_pending_updates = True\<rparr>"

text \<open>
  Running the script: the module body first, then \<open>main()\<close>. An exception of the module
  body ends the process before \<open>main()\<close> is reached.
\<close>

definition run_script :: "builtins \<Rightarrow> (str \<rightharpoonup> str) \<Rightarrow> exn + application" where
  "run_script py environ =
     (case load_config py environ of Inl e \<Rightarrow> Inl e | Inr cfg \<Rightarrow> Inr (main cfg))"

section \<open>The membership predicate\<close>

text \<open>
  \<open>telegram.constants.ChatMemberStatus\<close> is a string enumeration of the library; a
  member's \<open>status\<close> is a \<open>str\<close> that compares equal to one of its values, or any other
  string the platform sends. The values are those of the Bot API: the owner of a chat
  has the status string \<open>creator\<close>, a banned user the string \<open>kicked\<close>.
\<close>

definition ADMINISTRATOR :: str where "ADMINISTRATOR = ascii ''administrator''"
definition OWNER :: str where "OWNER = ascii ''creator''"
definition BANNED :: str where "BANNED = ascii ''kicked''"
definition LEFT :: str where "LEFT = ascii ''left''"
definition MEMBER :: str where "MEMBER = ascii ''member''"
definition RESTRICTED :: str where "RESTRICTED = ascii ''restricted''"

definition is_joined :: "str \<Rightarrow> bool" where
  "is_joined status \<longleftrightarrow> status \<in> {MEMBER, ADMINISTRATOR, OWNER, RESTRICTED}"

section \<open>The bot interface and the trace of calls\<close>

text \<open>
  \<open>InlineKeyboardButton(text, url=...)\<close> and \<open>InlineKeyboardButton(text,
  callback_data=...)\<close>; \<open>InlineKeyboardMarkup\<close> takes the rows of buttons.
\<close>

record InlineKeyboardButton =
  button_text :: str
  url :: "str option"
  callback_data :: "str option"

type_synonym InlineKeyboardMarkup = "InlineKeyboardButton list list"

text \<open>
  The bot is the outside world of a handler. A call either returns or raises, and the
  bot decides which: \<open>get_chat_member\<close> gives the \<open>status\<close> of the member it returns or
  the exception it raises, \<open>send_message\<close> gives \<open>None\<close> when the message is delivered and
  the exception otherwise.
\<close>

record Bot =
  get_chat_member :: "int_or_str \<Rightarrow> int \<Rightarrow> exn + str"
  send_message :: "int \<Rightarrow> str \<Rightarrow> InlineKeyboardMarkup option \<Rightarrow> exn option"

record callback_context =
  ctx_bot :: Bot

text \<open>
  The update of a \<open>/start\<close> command, as \<open>CommandHandler\<close> delivers it: it has a user, a
  chat and a message to reply to. \<open>reply_text\<close> is the outcome of
  \<open>update.message.reply_text\<close>.
\<close>

record update =
  effective_user_id :: int
  effective_chat_id :: int
  reply_text :: "str \<Rightarrow> exn option"

text \<open>
  The update of a button press, as \<open>CallbackQueryHandler\<close> delivers it: it has a callback
  query \<open>q\<close> with \<open>q.from_user.id\<close>, the chat id of \<open>q.message\<close> when there is a message, and
  the outcome of \<open>q.answer()\<close>.
\<close>

record callback_query =
  from_user_id :: int
  message_chat_id :: "int option"
  answer :: "exn option"

record callback_update =
  callback_query :: callback_query

text \<open>
  One event for every call a handler makes, in the order of the calls, with the
  arguments of the call; the membership lookup also records what came back.
  \<open>BusinessStart\<close> marks the entry into the protected action \<open>business_start\<close>.
\<close>

datatype event =
    is_Answer: Answer
  | is_GetChatMember: GetChatMember int_or_str int "exn + str"
  | is_SendMessage: SendMessage int str "InlineKeyboardMarkup option"
  | is_BusinessStart: BusinessStart update callback_context
  | is_ReplyText: ReplyText str

text \<open>A chat message going out to the user, as opposed to the acknowledgement of a button press.\<close>

definition is_message :: "event \<Rightarrow> bool" where
  "is_message ev \<longleftrightarrow> is_SendMessage ev \<or> is_ReplyText ev"

text \<open>
  A coroutine gives its outcome (\<open>Inl\<close> the exception that left it, \<open>Inr\<close> the value it
  returned) and the trace of the calls it made.
\<close>

type_synonym 'a io = "(exn + 'a) \<times> event list"

definition call :: "event \<Rightarrow> exn option \<Rightarrow> unit io" where
  "call ev outcome = ((case outcome of None \<Rightarrow> Inr () | Some e \<Rightarrow> Inl e), [ev])"

text \<open>\<open>after tr m\<close>: the coroutine \<open>m\<close>, run after the calls \<open>tr\<close> have been made.\<close>

definition after :: "event list \<Rightarrow> 'a io \<Rightarrow> 'a io" where
  "after tr m = (fst m, tr @ snd m)"

section \<open>The gate\<close>

definition build_join_url :: "config \<Rightarrow> str" where
  "build_join_url cfg =
     (if JOIN_URL cfg \<noteq> [] then JOIN_URL cfg
      else case REQUIRED_CHAT cfg of
             PyStr s \<Rightarrow> if startswith s (ascii ''@'') then ascii ''https://t.me/'' @ drop 1 s else []
           | PyInt n \<Rightarrow> [])"

definition check_membership :: "config \<Rightarrow> Bot \<Rightarrow> int \<Rightarrow> bool io" where
  "check_membership cfg bot' user_id =
     (let member = get_chat_member bot' (REQUIRED_CHAT cfg) user_id
      in ((case member of Inl e \<Rightarrow> Inl e | Inr status \<Rightarrow> Inr (is_joined status)),
          [GetChatMember (REQUIRED_CHAT cfg) user_id member]))"

text \<open>The labels of the two buttons and the body of the prompt (lines 78, 79 and 81).\<close>

definition join_label :: str where
  "join_label = [0x2705, 0x20, 0x53BB, 0x52A0, 0x5165, 0x9891, 0x9053, 0x2F, 0x7FA4]"

definition recheck_label :: str where
  "recheck_label =
     [0x1F504, 0x20, 0x6211, 0x5DF2, 0x52A0, 0x5165, 0xFF0C, 0x70B9, 0x6211, 0x590D, 0x67E5]"

definition prompt_text :: str where
  "prompt_text =
     [0x1F6AB, 0x20, 0x9700, 0x8981, 0x5148, 0x52A0, 0x5165, 0x6307, 0x5B9A, 0x9891, 0x9053, 0x2F,
      0x7FA4, 0x624D, 0x80FD, 0x4F7F, 0x7528, 0x672C, 0x673A, 0x5668, 0x4EBA, 0x3002, 0x0A,
      0x52A0, 0x5165, 0x540E, 0x70B9, 0x51FB, 0x300C, 0x6211, 0x5DF2, 0x52A0, 0x5165, 0xFF0C,
      0x70B9, 0x6211, 0x590D, 0x67E5, 0x300D, 0x3002]"

definition send_join_prompt :: "config \<Rightarrow> int \<Rightarrow> Bot \<Rightarrow> str \<Rightarrow> unit io" where
  "send_join_prompt cfg chat_id bot' extra_text =
     (if SILENT_FOR_NOT_JOINED cfg then (Inr (), [])
      else
        let join_url = build_join_url cfg;
            buttons =
              (if join_url \<noteq> []
               then [[\<lparr>button_text = join_label, url = Some join_url, callback_data = None\<rparr>]]
               else []) @
              [[\<lparr>button_text = recheck_label, url = None, callback_data = Some BTN_RECHECK\<rparr>]];
            text = (if extra_text \<noteq> [] then extra_text @ [0x0A, 0x0A] @ prompt_text
                    else prompt_text)
        in call (SendMessage chat_id text (Some buttons))
                (send_message bot' chat_id text (Some buttons)))"

text \<open>The protected action, a placeholder in the source: it replies with a fixed text (line 93).\<close>

definition business_text :: str where
  "business_text =
     [0x2705, 0x20, 0x6821, 0x9A8C, 0x901A, 0x8FC7, 0xFF1A, 0x8FDB, 0x5165, 0x4F60, 0x7684, 0x4E1A,
      0x52A1, 0x903B, 0x8F91, 0xFF08, 0x793A, 0x4F8B, 0x5360, 0x4F4D, 0xFF09]"

definition business_start :: "update \<Rightarrow> callback_context \<Rightarrow> unit io" where
  "business_start upd context =
     after [BusinessStart upd context]
       (call (ReplyText business_text) (reply_text upd business_text))"

text \<open>The diagnostic text of lines 108 to 112, built from the caught exception.\<close>

definition lookup_failed_text :: "config \<Rightarrow> str \<Rightarrow> str \<Rightarrow> str" where
  "lookup_failed_text cfg name msg =
     ([0x26A0, 0xFE0F, 0x20, 0x65E0, 0x6CD5, 0x6821, 0x9A8C, 0x5165, 0x7FA4, 0x72B6, 0x6001, 0xFF08,
       0x53EF, 0x80FD] @ ascii '' REQUIRED_CHAT '' @ [0x914D, 0x7F6E, 0x9519, 0x8BEF, 0xFF0C, 0x6216] @
      ascii '' bot '' @ [0x672A, 0x52A0, 0x5165, 0x2F, 0x65E0, 0x6743, 0x9650, 0xFF09, 0x3002, 0x0A]) @
     (ascii ''REQUIRED_CHAT='' @ REQUIRED_CHAT_RAW cfg @ [0x0A]) @
     ([0x9519, 0x8BEF, 0xFF1A] @ name @ ascii '': '' @ msg)"

definition start_with_gate :: "config \<Rightarrow> update \<Rightarrow> callback_context \<Rightarrow> unit io" where
  "start_with_gate cfg upd context =
     (let uid = effective_user_id upd;
          chat_id = effective_chat_id upd
      in case check_membership cfg (ctx_bot context) uid of
           (Inl e, tr) \<Rightarrow>
             (case e of
                TelegramError name msg \<Rightarrow>
                  after tr (send_join_prompt cfg chat_id (ctx_bot context)
                              (lookup_failed_text cfg name msg))
              | _ \<Rightarrow> (Inl e, tr))
         | (Inr ok, tr) \<Rightarrow>
             if \<not> ok then after tr (send_join_prompt cfg chat_id (ctx_bot context) [])
             else after tr (business_start upd context))"

section \<open>The recheck button\<close>

text \<open>The two texts of lines 139 and 147.\<close>

definition recheck_failed_text :: "str \<Rightarrow> str \<Rightarrow> str" where
  "recheck_failed_text name msg =
     [0x26A0, 0xFE0F, 0x20, 0x590D, 0x67E5, 0x5931, 0x8D25, 0xFF1A] @ name @ ascii '': '' @ msg"

definition confirmed_text :: str where
  "confirmed_text =
     [0x1F389, 0x20, 0x5DF2, 0x786E, 0x8BA4, 0x4F60, 0x5DF2, 0x52A0, 0x5165, 0xFF01, 0x8BF7, 0x53D1,
      0x9001] @ ascii '' /start '' @ [0x7EE7, 0x7EED, 0x3002]"

text \<open>
  \<open>chat_id\<close> is \<open>None\<close> when the query has no message; \<open>not chat_id\<close> also holds for the
  chat id 0. The handler returns there, after the acknowledgement and before any lookup.
\<close>

definition on_recheck :: "config \<Rightarrow> callback_update \<Rightarrow> callback_context \<Rightarrow> unit io" where
  "on_recheck cfg upd context =
     (let q = callback_query upd
      in case call Answer (answer q) of
           (Inl e, tr0) \<Rightarrow> (Inl e, tr0)
         | (Inr _, tr0) \<Rightarrow>
             (let uid = from_user_id q
              in case message_chat_id q of
                   None \<Rightarrow> (Inr (), tr0)
                 | Some chat_id \<Rightarrow>
                     if chat_id = 0 then (Inr (), tr0)
                     else
                       (case check_membership cfg (ctx_bot context) uid of
                          (Inl e, tr) \<Rightarrow>
                            (case e of
                               TelegramError name msg \<Rightarrow>
                                 if \<not> SILENT_FOR_NOT_JOINED cfg
                                 then after (tr0 @ tr)
                                        (call (SendMessage chat_id (recheck_failed_text name msg) None)
                                           (send_message (ctx_bot context) chat_id
                                              (recheck_failed_text name msg) None))
                                 else (Inr (), tr0 @ tr)
                             | _ \<Rightarrow> (Inl e, tr0 @ tr))
                        | (Inr ok, tr) \<Rightarrow>
                            if \<not> ok
                            then after (tr0 @ tr) (send_join_prompt cfg chat_id (ctx_bot context) [])
                            else if \<not> SILENT_FOR_NOT_JOINED cfg
                            then after (tr0 @ tr)
                                   (call (SendMessage chat_id confirmed_text None)
                                      (send_message (ctx_bot context) chat_id confirmed_text None))
                            else (Inr (), tr0 @ tr))))"

section \<open>Sample inputs\<close>

text \<open>
  The three built-ins on ASCII input (decimal digits with an optional minus sign for
  \<open>int\<close>), a bot that answers every lookup with the outcome it is given and delivers every
  message, and one update of each kind.
\<close>

definition ascii_int :: "str \<Rightarrow> exn + int" where
  "ascii_int s =
     (let neg = startswith s (ascii ''-'');
          ds = (if neg then drop 1 s else s)
      in if ds \<noteq> [] \<and> list_all (\<lambda>c. 0x30 \<le> c \<and> c \<le> 0x39) ds
         then Inr ((if neg then - 1 else 1) * foldl (\<lambda>a c. 10 * a + int (c - 0x30)) 0 ds)
         else Inl (OtherError (ascii ''ValueError'') s))"

definition ascii_builtins :: builtins where
  "ascii_builtins =
     \<lparr>str_lower = map (\<lambda>c. if 0x41 \<le> c \<and> c \<le> 0x5A then c + 0x20 else c),
      str_isdigit = (\<lambda>s. s \<noteq> [] \<and> list_all (\<lambda>c. 0x30 \<le> c \<and> c \<le> 0x39) s),
      int_of_str = ascii_int\<rparr>"

definition bot_with :: "(exn + str) \<Rightarrow> Bot" where
  "bot_with r = \<lparr>get_chat_member = (\<lambda>chat user. r), send_message = (\<lambda>chat text markup. None)\<rparr>"

definition some_update :: update where
  "some_update = \<lparr>effective_user_id = 7, effective_chat_id = 7, reply_text = (\<lambda>text. None)\<rparr>"

definition some_press :: callback_update where
  "some_press =
     \<lparr>callback_query = \<lparr>from_user_id = 7, message_chat_id = Some 7, answer = None\<rparr>\<rparr>"

definition handle_config :: config where
  "handle_config =
     \<lparr>BOT_TOKEN = ascii ''123:abc'', REQUIRED_CHAT_RAW = ascii ''@mychannel'', JOIN_URL = [],
      SILENT_FOR_NOT_JOINED = False, REQUIRED_CHAT = PyStr (ascii ''@mychannel'')\<rparr>"

definition silent_config :: config where
  "silent_config = handle_config\<lparr>SILENT_FOR_NOT_JOINED := True\<rparr>"

definition numeric_config :: config where
  "numeric_config =
     \<lparr>BOT_TOKEN = ascii ''123:abc'', REQUIRED_CHAT_RAW = ascii ''-1001234567890'', JOIN_URL = [],
      SILENT_FOR_NOT_JOINED = False, REQUIRED_CHAT = PyInt (- 1001234567890)\<rparr>"

definition link_config :: config where
  "link_config = numeric_config\<lparr>JOIN_URL := ascii ''https://t.me/+AbCdEf''\<rparr>"

definition context_with :: "(exn + str) \<Rightarrow> callback_context" where
  "context_with r = \<lparr>ctx_bot = bot_with r\<rparr>"

section \<open>Auxiliary facts\<close>

lemmas io_defs = call_def after_def check_membership_def send_join_prompt_def business_start_def

lemmas sample_defs = context_with_def bot_with_def some_update_def some_press_def handle_config_def
  silent_config_def numeric_config_def link_config_def

lemmas status_defs = is_joined_def MEMBER_def ADMINISTRATOR_def OWNER_def RESTRICTED_def
  LEFT_def BANNED_def ascii_def

text \<open>Trimming leaves nothing exactly when every code point is white space.\<close>

lemma strip_Nil_iff: "strip s = [] \<longleftrightarrow> list_all isspace s"
proof -
  have "dropWhile isspace s = [] \<longleftrightarrow> list_all isspace s"
    by (simp add: dropWhile_eq_Nil_conv list_all_iff)
  moreover have "dropWhile isspace (rev (dropWhile isspace s)) = [] \<longleftrightarrow> dropWhile isspace s = []"
  proof (cases "dropWhile isspace s")
    case Nil
    then show ?thesis by (simp del: dropWhile_eq_Nil_conv)
  next
    case (Cons x xs)
    then have "\<not> isspace x" using hd_dropWhile[of isspace s] by force
    moreover have "x \<in> set (rev (dropWhile isspace s))" using Cons by simp
    ultimately show ?thesis using Cons by (auto simp: dropWhile_eq_Nil_conv)
  qed
  ultimately have "dropWhile isspace (rev (dropWhile isspace s)) = [] \<longleftrightarrow> list_all isspace s"
    by blast
  then show ?thesis by (simp only: strip_def rstrip_def lstrip_def rev_is_Nil_conv)
qed

text \<open>The sample bot delivers every message.\<close>

lemma sample_bot_delivers: "send_message (ctx_bot (context_with r)) chat_id text markup = None"
  by (simp add: sample_defs)

text \<open>The confirmation of the recheck names the command to send again.\<close>

lemma confirmed_mentions_start: "sublist (ascii ''/start'') confirmed_text"
proof -
  have eq: "confirmed_text =
      ([0x1F389, 0x20, 0x5DF2, 0x786E, 0x8BA4, 0x4F60, 0x5DF2, 0x52A0, 0x5165, 0xFF01, 0x8BF7,
        0x53D1, 0x9001] @ ascii '' '') @ ascii ''/start'' @ (ascii '' '' @ [0x7EE7, 0x7EED, 0x3002])"
    by (simp add: confirmed_text_def ascii_def)
  show ?thesis by (subst eq) (rule sublist_appendI)
qed

text \<open>The three cases of \<open>build_join_url\<close>, and the one message of \<open>send_join_prompt\<close>.\<close>

lemma build_join_url_override: "JOIN_URL cfg \<noteq> [] \<Longrightarrow> build_join_url cfg = JOIN_URL cfg"
  by (simp add: build_join_url_def)

lemma build_join_url_handle:
  "JOIN_URL cfg = [] \<Longrightarrow> REQUIRED_CHAT cfg = PyStr (ascii ''@'' @ handle) \<Longrightarrow>
   build_join_url cfg = ascii ''https://t.me/'' @ handle"
  by (simp add: build_join_url_def startswith_def ascii_def)

lemma build_join_url_none:
  assumes "JOIN_URL cfg = []" and "\<forall>handle. REQUIRED_CHAT cfg \<noteq> PyStr (ascii ''@'' @ handle)"
  shows "build_join_url cfg = []"
proof (cases "REQUIRED_CHAT cfg")
  case (PyInt n)
  with assms(1) show ?thesis by (simp add: build_join_url_def)
next
  case (PyStr s)
  have "\<not> startswith s (ascii ''@'')"
  proof
    assume "startswith s (ascii ''@'')"
    then have "s = ascii ''@'' @ drop 1 s"
      by (cases s) (simp_all add: startswith_def ascii_def)
    with PyStr assms(2) show False by metis
  qed
  with PyStr assms(1) show ?thesis by (simp add: build_join_url_def)
qed

lemma send_join_prompt_trace:
  "\<not> SILENT_FOR_NOT_JOINED cfg \<Longrightarrow>
   snd (send_join_prompt cfg chat_id bot' extra_text) =
     [SendMessage chat_id
        (if extra_text \<noteq> [] then extra_text @ [0x0A, 0x0A] @ prompt_text else prompt_text)
        (Some ((if build_join_url cfg \<noteq> []
                then [[\<lparr>button_text = join_label, url = Some (build_join_url cfg),
                         callback_data = None\<rparr>]]
                else []) @
               [[\<lparr>button_text = recheck_label, url = None, callback_data = Some BTN_RECHECK\<rparr>]]))]"
  by (simp add: send_join_prompt_def call_def Let_def)

section \<open>Membership statuses\<close>

text \<open>
  C1. The four statuses member, administrator, owner and restricted of the library's
  enumeration count as joined; the statuses left and kicked do not.
\<close>

theorem is_joined_statuses:
  "is_joined MEMBER \<and> is_joined ADMINISTRATOR \<and> is_joined OWNER \<and> is_joined RESTRICTED \<and>
   \<not> is_joined LEFT \<and> \<not> is_joined BANNED"
  by (simp add: is_joined_def MEMBER_def ADMINISTRATOR_def OWNER_def RESTRICTED_def
      LEFT_def BANNED_def ascii_def)

section \<open>Properties of the gate on \<open>/start\<close>\<close>

text \<open>
  C2. When the lookup of a gated \<open>/start\<close> returns a joined status, the handler makes the
  lookup and then does exactly what \<open>business_start\<close> does on the same update and the same
  context: the protected action is entered once, with the handler's own arguments, and
  no message is sent through \<open>send_message\<close>.
\<close>

theorem gate_joined_runs_business_start:
  assumes "get_chat_member (ctx_bot context) (REQUIRED_CHAT cfg) (effective_user_id upd) = Inr status"
    and "is_joined status"
  shows "start_with_gate cfg upd context =
           after [GetChatMember (REQUIRED_CHAT cfg) (effective_user_id upd) (Inr status)]
             (business_start upd context) \<and>
         filter is_BusinessStart (snd (start_with_gate cfg upd context)) =
           [BusinessStart upd context] \<and>
         filter is_SendMessage (snd (start_with_gate cfg upd context)) = []"
  using assms by (simp add: start_with_gate_def io_defs Let_def)

theorem gate_joined_runs_business_start_witness:
  "get_chat_member (ctx_bot (context_with (Inr OWNER))) (REQUIRED_CHAT handle_config)
     (effective_user_id some_update) = Inr OWNER \<and>
   is_joined OWNER \<and>
   start_with_gate handle_config some_update (context_with (Inr OWNER)) =
     after [GetChatMember (REQUIRED_CHAT handle_config) (effective_user_id some_update) (Inr OWNER)]
       (business_start some_update (context_with (Inr OWNER))) \<and>
   filter is_BusinessStart (snd (start_with_gate handle_config some_update (context_with (Inr OWNER))))
     = [BusinessStart some_update (context_with (Inr OWNER))] \<and>
   filter is_SendMessage (snd (start_with_gate handle_config some_update (context_with (Inr OWNER))))
     = []"
proof -
  have h1: "get_chat_member (ctx_bot (context_with (Inr OWNER))) (REQUIRED_CHAT handle_config)
     (effective_user_id some_update) = Inr OWNER"
    by (simp add: sample_defs)
  have h2: "is_joined OWNER"
    by (simp add: status_defs)
  from gate_joined_runs_business_start [OF h1 h2] h1 h2 show ?thesis by blast
qed

text \<open>
  C3. When the lookup returns a status that is not joined and silent mode is off, the
  handler makes the lookup and sends one message, the prompt, to the chat of the update;
  its keyboard has the recheck button with the callback tag \<open>BTN_RECHECK\<close>; the protected
  action is not entered.
\<close>

theorem gate_not_joined_prompts_once:
  assumes "get_chat_member (ctx_bot context) (REQUIRED_CHAT cfg) (effective_user_id upd) = Inr status"
    and "\<not> is_joined status"
    and "\<not> SILENT_FOR_NOT_JOINED cfg"
  shows "\<exists>markup.
           snd (start_with_gate cfg upd context) =
             [GetChatMember (REQUIRED_CHAT cfg) (effective_user_id upd) (Inr status),
              SendMessage (effective_chat_id upd) prompt_text (Some markup)] \<and>
           \<lparr>button_text = recheck_label, url = None, callback_data = Some BTN_RECHECK\<rparr>
             \<in> set (concat markup) \<and>
           filter is_message (snd (start_with_gate cfg upd context)) =
             [SendMessage (effective_chat_id upd) prompt_text (Some markup)] \<and>
           filter is_BusinessStart (snd (start_with_gate cfg upd context)) = []"
  using assms by (simp add: start_with_gate_def io_defs Let_def is_message_def)

theorem gate_not_joined_prompts_once_witness:
  "get_chat_member (ctx_bot (context_with (Inr LEFT))) (REQUIRED_CHAT handle_config)
     (effective_user_id some_update) = Inr LEFT \<and>
   \<not> is_joined LEFT \<and>
   \<not> SILENT_FOR_NOT_JOINED handle_config \<and>
   (\<exists>markup.
      snd (start_with_gate handle_config some_update (context_with (Inr LEFT))) =
        [GetChatMember (REQUIRED_CHAT handle_config) (effective_user_id some_update) (Inr LEFT),
         SendMessage (effective_chat_id some_update) prompt_text (Some markup)] \<and>
      \<lparr>button_text = recheck_label, url = None, callback_data = Some BTN_RECHECK\<rparr>
        \<in> set (concat markup) \<and>
      filter is_message (snd (start_with_gate handle_config some_update (context_with (Inr LEFT)))) =
        [SendMessage (effective_chat_id some_update) prompt_text (Some markup)] \<and>
      filter is_BusinessStart (snd (start_with_gate handle_config some_update (context_with (Inr LEFT))))
        = [])"
proof -
  have h1: "get_chat_member (ctx_bot (context_with (Inr LEFT))) (REQUIRED_CHAT handle_config)
     (effective_user_id some_update) = Inr LEFT"
    by (simp add: sample_defs)
  have h2: "\<not> is_joined LEFT"
    by (simp add: status_defs)
  have h3: "\<not> SILENT_FOR_NOT_JOINED handle_config"
    by (simp add: sample_defs)
  from gate_not_joined_prompts_once [OF h1 h2 h3] h1 h2 h3 show ?thesis by blast
qed

text \<open>
  C4. In silent mode a recheck sends no chat message and never enters the protected
  action, whatever the lookup gives (a joined status, another status, any exception);
  a gated \<open>/start\<close> whose lookup does not give a joined status sends no chat message and
  does not enter the protected action either.
\<close>

theorem silent_mode_sends_nothing:
  assumes "SILENT_FOR_NOT_JOINED cfg"
  shows "filter is_message (snd (on_recheck cfg press context)) = [] \<and>
         filter is_BusinessStart (snd (on_recheck cfg press context)) = [] \<and>
         ((\<forall>status. get_chat_member (ctx_bot context) (REQUIRED_CHAT cfg) (effective_user_id upd)
                      = Inr status \<longrightarrow> \<not> is_joined status) \<longrightarrow>
          filter is_message (snd (start_with_gate cfg upd context)) = [] \<and>
          filter is_BusinessStart (snd (start_with_gate cfg upd context)) = [])"
  using assms
  by (auto simp add: on_recheck_def start_with_gate_def io_defs Let_def is_message_def
       split: option.split sum.split exn.split)

theorem silent_mode_sends_nothing_witness:
  "SILENT_FOR_NOT_JOINED silent_config \<and>
   get_chat_member (ctx_bot (context_with (Inr BANNED))) (REQUIRED_CHAT silent_config)
     (effective_user_id some_update) = Inr BANNED \<and>
   \<not> is_joined BANNED \<and>
   filter is_message (snd (on_recheck silent_config some_press (context_with (Inr BANNED)))) = [] \<and>
   filter is_BusinessStart (snd (on_recheck silent_config some_press (context_with (Inr BANNED)))) = [] \<and>
   filter is_message (snd (start_with_gate silent_config some_update (context_with (Inr BANNED)))) = [] \<and>
   filter is_BusinessStart (snd (start_with_gate silent_config some_update (context_with (Inr BANNED))))
     = []"
proof -
  have h1: "SILENT_FOR_NOT_JOINED silent_config"
    by (simp add: sample_defs)
  have h2: "get_chat_member (ctx_bot (context_with (Inr BANNED))) (REQUIRED_CHAT silent_config)
     (effective_user_id some_update) = Inr BANNED"
    by (simp add: sample_defs)
  have h3: "\<not> is_joined BANNED"
    by (simp add: status_defs)
  from h2 h3 have not_joined:
    "\<forall>status. get_chat_member (ctx_bot (context_with (Inr BANNED))) (REQUIRED_CHAT silent_config)
                (effective_user_id some_update) = Inr status \<longrightarrow> \<not> is_joined status"
    by simp
  from silent_mode_sends_nothing [OF h1, of some_press "context_with (Inr BANNED)" some_update]
    not_joined h1 h2 h3
  show ?thesis by blast
qed

text \<open>
  C5. When the lookup of a gated \<open>/start\<close> raises a \<open>TelegramError\<close>, the handler catches it
  and does not enter the protected action. In silent mode it returns with nothing sent.
  Otherwise it sends one message and ends as that call ends: the text is the diagnostic
  text, two line feeds and the standard prompt body, and the diagnostic text contains
  \<open>REQUIRED_CHAT=\<close> followed by the raw configured value and the type name, a colon and the
  message of the exception.
\<close>

theorem gate_lookup_error_is_caught:
  assumes "get_chat_member (ctx_bot context) (REQUIRED_CHAT cfg) (effective_user_id upd)
             = Inl (TelegramError name msg)"
  shows "filter is_BusinessStart (snd (start_with_gate cfg upd context)) = [] \<and>
         (SILENT_FOR_NOT_JOINED cfg \<longrightarrow>
            start_with_gate cfg upd context =
              (Inr (), [GetChatMember (REQUIRED_CHAT cfg) (effective_user_id upd)
                          (Inl (TelegramError name msg))])) \<and>
         (\<not> SILENT_FOR_NOT_JOINED cfg \<longrightarrow>
            (\<exists>markup.
               start_with_gate cfg upd context =
                 ((case send_message (ctx_bot context) (effective_chat_id upd)
                          (lookup_failed_text cfg name msg @ [0x0A, 0x0A] @ prompt_text) (Some markup)
                   of None \<Rightarrow> Inr () | Some e \<Rightarrow> Inl e),
                  [GetChatMember (REQUIRED_CHAT cfg) (effective_user_id upd)
                     (Inl (TelegramError name msg)),
                   SendMessage (effective_chat_id upd)
                     (lookup_failed_text cfg name msg @ [0x0A, 0x0A] @ prompt_text) (Some markup)]))) \<and>
         sublist (ascii ''REQUIRED_CHAT='' @ REQUIRED_CHAT_RAW cfg) (lookup_failed_text cfg name msg) \<and>
         sublist (name @ ascii '': '' @ msg) (lookup_failed_text cfg name msg)"
proof -
  have nonempty: "lookup_failed_text cfg name msg \<noteq> []"
    by (simp add: lookup_failed_text_def)
  have eq_raw: "lookup_failed_text cfg name msg =
      ([0x26A0, 0xFE0F, 0x20, 0x65E0, 0x6CD5, 0x6821, 0x9A8C, 0x5165, 0x7FA4, 0x72B6, 0x6001, 0xFF08,
        0x53EF, 0x80FD] @ ascii '' REQUIRED_CHAT '' @ [0x914D, 0x7F6E, 0x9519, 0x8BEF, 0xFF0C, 0x6216] @
       ascii '' bot '' @ [0x672A, 0x52A0, 0x5165, 0x2F, 0x65E0, 0x6743, 0x9650, 0xFF09, 0x3002, 0x0A]) @
      (ascii ''REQUIRED_CHAT='' @ REQUIRED_CHAT_RAW cfg) @
      ([0x0A] @ [0x9519, 0x8BEF, 0xFF1A] @ name @ ascii '': '' @ msg)"
    by (simp only: lookup_failed_text_def append_assoc)
  have raw: "sublist (ascii ''REQUIRED_CHAT='' @ REQUIRED_CHAT_RAW cfg) (lookup_failed_text cfg name msg)"
    by (subst eq_raw) (rule sublist_appendI)
  have eq_err: "lookup_failed_text cfg name msg =
      (([0x26A0, 0xFE0F, 0x20, 0x65E0, 0x6CD5, 0x6821, 0x9A8C, 0x5165, 0x7FA4, 0x72B6, 0x6001, 0xFF08,
         0x53EF, 0x80FD] @ ascii '' REQUIRED_CHAT '' @ [0x914D, 0x7F6E, 0x9519, 0x8BEF, 0xFF0C, 0x6216] @
        ascii '' bot '' @ [0x672A, 0x52A0, 0x5165, 0x2F, 0x65E0, 0x6743, 0x9650, 0xFF09, 0x3002, 0x0A]) @
       (ascii ''REQUIRED_CHAT='' @ REQUIRED_CHAT_RAW cfg @ [0x0A]) @ [0x9519, 0x8BEF, 0xFF1A]) @
      (name @ ascii '': '' @ msg)"
    by (simp only: lookup_failed_text_def append_assoc)
  have err: "sublist (name @ ascii '': '' @ msg) (lookup_failed_text cfg name msg)"
    by (subst eq_err) (rule sublist_append_leftI)
  show ?thesis
    using assms nonempty raw err
    by (simp add: start_with_gate_def io_defs Let_def)
qed

theorem gate_lookup_error_is_caught_witness:
  "get_chat_member (ctx_bot (context_with (Inl (TelegramError (ascii ''Forbidden'') (ascii ''kicked'')))))
     (REQUIRED_CHAT handle_config) (effective_user_id some_update)
     = Inl (TelegramError (ascii ''Forbidden'') (ascii ''kicked'')) \<and>
   \<not> SILENT_FOR_NOT_JOINED handle_config \<and>
   filter is_BusinessStart
     (snd (start_with_gate handle_config some_update
        (context_with (Inl (TelegramError (ascii ''Forbidden'') (ascii ''kicked'')))))) = [] \<and>
   fst (start_with_gate handle_config some_update
        (context_with (Inl (TelegramError (ascii ''Forbidden'') (ascii ''kicked''))))) = Inr () \<and>
   sublist (ascii ''REQUIRED_CHAT='' @ REQUIRED_CHAT_RAW handle_config)
     (lookup_failed_text handle_config (ascii ''Forbidden'') (ascii ''kicked'')) \<and>
   sublist (ascii ''Forbidden'' @ ascii '': '' @ ascii ''kicked'')
     (lookup_failed_text handle_config (ascii ''Forbidden'') (ascii ''kicked''))"
proof -
  have h1: "get_chat_member (ctx_bot (context_with (Inl (TelegramError (ascii ''Forbidden'') (ascii ''kicked'')))))
     (REQUIRED_CHAT handle_config) (effective_user_id some_update)
     = Inl (TelegramError (ascii ''Forbidden'') (ascii ''kicked''))"
    by (simp add: sample_defs)
  have h2: "\<not> SILENT_FOR_NOT_JOINED handle_config"
    by (simp add: sample_defs)
  note caught = gate_lookup_error_is_caught [OF h1]
  from caught h2 obtain markup where eq:
    "start_with_gate handle_config some_update
       (context_with (Inl (TelegramError (ascii ''Forbidden'') (ascii ''kicked'')))) =
     ((case send_message
             (ctx_bot (context_with (Inl (TelegramError (ascii ''Forbidden'') (ascii ''kicked'')))))
             (effective_chat_id some_update)
             (lookup_failed_text handle_config (ascii ''Forbidden'') (ascii ''kicked'') @
              [0x0A, 0x0A] @ prompt_text) (Some markup)
       of None \<Rightarrow> Inr () | Some e \<Rightarrow> Inl e),
      [GetChatMember (REQUIRED_CHAT handle_config) (effective_user_id some_update)
         (Inl (TelegramError (ascii ''Forbidden'') (ascii ''kicked''))),
       SendMessage (effective_chat_id some_update)
         (lookup_failed_text handle_config (ascii ''Forbidden'') (ascii ''kicked'') @
          [0x0A, 0x0A] @ prompt_text) (Some markup)])"
    by blast
  have returns: "fst (start_with_gate handle_config some_update
       (context_with (Inl (TelegramError (ascii ''Forbidden'') (ascii ''kicked''))))) = Inr ()"
    unfolding eq by (simp add: sample_bot_delivers)
  from caught h1 h2 returns show ?thesis by blast
qed

text \<open>
  Two facts at the edge of the properties above. An exception of the lookup that is not a
  \<open>TelegramError\<close> is not caught and leaves the handler. Silent mode does not silence the
  protected action: a joined \<open>/start\<close> still gets the reply of \<open>business_start\<close>.
\<close>

lemma gate_other_exception_propagates:
  assumes "get_chat_member (ctx_bot context) (REQUIRED_CHAT cfg) (effective_user_id upd)
             = Inl (OtherError name msg)"
  shows "start_with_gate cfg upd context =
           (Inl (OtherError name msg),
            [GetChatMember (REQUIRED_CHAT cfg) (effective_user_id upd) (Inl (OtherError name msg))])"
  using assms by (simp add: start_with_gate_def io_defs Let_def)

lemma silent_gate_joined_still_replies:
  assumes "get_chat_member (ctx_bot context) (REQUIRED_CHAT cfg) (effective_user_id upd) = Inr status"
    and "is_joined status"
  shows "filter is_message (snd (start_with_gate cfg upd context)) = [ReplyText business_text]"
  using assms by (simp add: start_with_gate_def io_defs Let_def is_message_def)

section \<open>Properties of the prompt\<close>

text \<open>
  C6. Outside silent mode \<open>send_join_prompt\<close> sends one message with a keyboard. When
  \<open>JOIN_URL\<close> is set, the keyboard is the join button with that URL and the recheck button;
  when it is not set and \<open>REQUIRED_CHAT\<close> is a string that starts with \<open>@\<close>, the join button
  has the URL \<open>https://t.me/\<close> followed by the rest of that string; in every other case the
  keyboard is the recheck button alone.
\<close>

theorem prompt_join_button:
  assumes "\<not> SILENT_FOR_NOT_JOINED cfg"
  shows "\<exists>text markup.
           snd (send_join_prompt cfg chat_id bot' extra_text) =
             [SendMessage chat_id text (Some markup)] \<and>
           (JOIN_URL cfg \<noteq> [] \<longrightarrow>
              markup =
                [[\<lparr>button_text = join_label, url = Some (JOIN_URL cfg), callback_data = None\<rparr>],
                 [\<lparr>button_text = recheck_label, url = None, callback_data = Some BTN_RECHECK\<rparr>]]) \<and>
           (JOIN_URL cfg = [] \<longrightarrow>
              (\<forall>handle. REQUIRED_CHAT cfg = PyStr (ascii ''@'' @ handle) \<longrightarrow>
                 markup =
                   [[\<lparr>button_text = join_label, url = Some (ascii ''https://t.me/'' @ handle),
                      callback_data = None\<rparr>],
                    [\<lparr>button_text = recheck_label, url = None, callback_data = Some BTN_RECHECK\<rparr>]])) \<and>
           (JOIN_URL cfg = [] \<longrightarrow>
              (\<forall>handle. REQUIRED_CHAT cfg \<noteq> PyStr (ascii ''@'' @ handle)) \<longrightarrow>
                 markup =
                   [[\<lparr>button_text = recheck_label, url = None, callback_data = Some BTN_RECHECK\<rparr>]])"
proof -
  let ?markup = "(if build_join_url cfg \<noteq> []
                then [[\<lparr>button_text = join_label, url = Some (build_join_url cfg),
                         callback_data = None\<rparr>]]
                else []) @
               [[\<lparr>button_text = recheck_label, url = None, callback_data = Some BTN_RECHECK\<rparr>]]"
  have url_nonempty: "ascii ''https://t.me/'' @ h \<noteq> []" for h
    by (simp add: ascii_def)
  have "JOIN_URL cfg \<noteq> [] \<longrightarrow>
          ?markup =
            [[\<lparr>button_text = join_label, url = Some (JOIN_URL cfg), callback_data = None\<rparr>],
             [\<lparr>button_text = recheck_label, url = None, callback_data = Some BTN_RECHECK\<rparr>]]"
    by (simp add: build_join_url_override)
  moreover have "JOIN_URL cfg = [] \<longrightarrow>
          (\<forall>handle. REQUIRED_CHAT cfg = PyStr (ascii ''@'' @ handle) \<longrightarrow>
             ?markup =
               [[\<lparr>button_text = join_label, url = Some (ascii ''https://t.me/'' @ handle),
                  callback_data = None\<rparr>],
                [\<lparr>button_text = recheck_label, url = None, callback_data = Some BTN_RECHECK\<rparr>]])"
    by (intro impI allI) (simp only: build_join_url_handle url_nonempty, simp)
  moreover have "JOIN_URL cfg = [] \<longrightarrow>
          (\<forall>handle. REQUIRED_CHAT cfg \<noteq> PyStr (ascii ''@'' @ handle)) \<longrightarrow>
             ?markup =
               [[\<lparr>button_text = recheck_label, url = None, callback_data = Some BTN_RECHECK\<rparr>]]"
  proof (intro impI)
    assume "JOIN_URL cfg = []" and "\<forall>handle. REQUIRED_CHAT cfg \<noteq> PyStr (ascii ''@'' @ handle)"
    then have "build_join_url cfg = []" by (rule build_join_url_none)
    then show "?markup =
               [[\<lparr>button_text = recheck_label, url = None, callback_data = Some BTN_RECHECK\<rparr>]]"
      by simp
  qed
  ultimately show ?thesis
    using send_join_prompt_trace [OF assms, of chat_id bot' extra_text] by blast
qed

theorem prompt_join_button_witness:
  "(\<not> SILENT_FOR_NOT_JOINED link_config \<and> JOIN_URL link_config \<noteq> [] \<and>
    (\<exists>text. snd (send_join_prompt link_config 7 (bot_with (Inr LEFT)) []) =
       [SendMessage 7 text
          (Some [[\<lparr>button_text = join_label, url = Some (JOIN_URL link_config),
                    callback_data = None\<rparr>],
                 [\<lparr>button_text = recheck_label, url = None,
                    callback_data = Some BTN_RECHECK\<rparr>]])])) \<and>
   (\<not> SILENT_FOR_NOT_JOINED handle_config \<and> JOIN_URL handle_config = [] \<and>
    REQUIRED_CHAT handle_config = PyStr (ascii ''@'' @ ascii ''mychannel'') \<and>
    (\<exists>text. snd (send_join_prompt handle_config 7 (bot_with (Inr LEFT)) []) =
       [SendMessage 7 text
          (Some [[\<lparr>button_text = join_label,
                    url = Some (ascii ''https://t.me/'' @ ascii ''mychannel''),
                    callback_data = None\<rparr>],
                 [\<lparr>button_text = recheck_label, url = None,
                    callback_data = Some BTN_RECHECK\<rparr>]])])) \<and>
   (\<not> SILENT_FOR_NOT_JOINED numeric_config \<and> JOIN_URL numeric_config = [] \<and>
    (\<forall>handle. REQUIRED_CHAT numeric_config \<noteq> PyStr (ascii ''@'' @ handle)) \<and>
    (\<exists>text. snd (send_join_prompt numeric_config 7 (bot_with (Inr LEFT)) []) =
       [SendMessage 7 text
          (Some [[\<lparr>button_text = recheck_label, url = None,
                    callback_data = Some BTN_RECHECK\<rparr>]])]))"
proof -
  have l1: "\<not> SILENT_FOR_NOT_JOINED link_config" and l2: "JOIN_URL link_config \<noteq> []"
    by (simp_all add: sample_defs ascii_def)
  have h1: "\<not> SILENT_FOR_NOT_JOINED handle_config" and h2: "JOIN_URL handle_config = []"
    and h3: "REQUIRED_CHAT handle_config = PyStr (ascii ''@'' @ ascii ''mychannel'')"
    by (simp_all add: sample_defs ascii_def)
  have n1: "\<not> SILENT_FOR_NOT_JOINED numeric_config" and n2: "JOIN_URL numeric_config = []"
    and n3: "\<forall>handle. REQUIRED_CHAT numeric_config \<noteq> PyStr (ascii ''@'' @ handle)"
    by (simp_all add: sample_defs)
  from prompt_join_button [OF l1, of 7 "bot_with (Inr LEFT)" "[]"] l1 l2
  have link: "\<not> SILENT_FOR_NOT_JOINED link_config \<and> JOIN_URL link_config \<noteq> [] \<and>
    (\<exists>text. snd (send_join_prompt link_config 7 (bot_with (Inr LEFT)) []) =
       [SendMessage 7 text
          (Some [[\<lparr>button_text = join_label, url = Some (JOIN_URL link_config),
                    callback_data = None\<rparr>],
                 [\<lparr>button_text = recheck_label, url = None,
                    callback_data = Some BTN_RECHECK\<rparr>]])])"
    by blast
  have handle: "\<not> SILENT_FOR_NOT_JOINED handle_config \<and> JOIN_URL handle_config = [] \<and>
    REQUIRED_CHAT handle_config = PyStr (ascii ''@'' @ ascii ''mychannel'') \<and>
    (\<exists>text. snd (send_join_prompt handle_config 7 (bot_with (Inr LEFT)) []) =
       [SendMessage 7 text
          (Some [[\<lparr>button_text = join_label,
                    url = Some (ascii ''https://t.me/'' @ ascii ''mychannel''),
                    callback_data = None\<rparr>],
                 [\<lparr>button_text = recheck_label, url = None,
                    callback_data = Some BTN_RECHECK\<rparr>]])])"
  proof -
    from prompt_join_button [OF h1, of 7 "bot_with (Inr LEFT)" "[]"]
    obtain body markup where
      tr: "snd (send_join_prompt handle_config 7 (bot_with (Inr LEFT)) []) =
             [SendMessage 7 body (Some markup)]"
      and at: "JOIN_URL handle_config = [] \<longrightarrow>
        (\<forall>handle. REQUIRED_CHAT handle_config = PyStr (ascii ''@'' @ handle) \<longrightarrow>
           markup =
             [[\<lparr>button_text = join_label, url = Some (ascii ''https://t.me/'' @ handle),
                callback_data = None\<rparr>],
              [\<lparr>button_text = recheck_label, url = None, callback_data = Some BTN_RECHECK\<rparr>]])"
      by blast
    from at h2 have "\<forall>handle. REQUIRED_CHAT handle_config = PyStr (ascii ''@'' @ handle) \<longrightarrow>
           markup =
             [[\<lparr>button_text = join_label, url = Some (ascii ''https://t.me/'' @ handle),
                callback_data = None\<rparr>],
              [\<lparr>button_text = recheck_label, url = None, callback_data = Some BTN_RECHECK\<rparr>]]"
      by (rule mp)
    then have "REQUIRED_CHAT handle_config = PyStr (ascii ''@'' @ ascii ''mychannel'') \<longrightarrow>
           markup =
             [[\<lparr>button_text = join_label, url = Some (ascii ''https://t.me/'' @ ascii ''mychannel''),
                callback_data = None\<rparr>],
              [\<lparr>button_text = recheck_label, url = None, callback_data = Some BTN_RECHECK\<rparr>]]"
      by (rule spec)
    from this h3 have "markup =
             [[\<lparr>button_text = join_label, url = Some (ascii ''https://t.me/'' @ ascii ''mychannel''),
                callback_data = None\<rparr>],
              [\<lparr>button_text = recheck_label, url = None, callback_data = Some BTN_RECHECK\<rparr>]]"
      by (rule mp)
    with tr have "\<exists>text. snd (send_join_prompt handle_config 7 (bot_with (Inr LEFT)) []) =
       [SendMessage 7 text
          (Some [[\<lparr>button_text = join_label,
                    url = Some (ascii ''https://t.me/'' @ ascii ''mychannel''),
                    callback_data = None\<rparr>],
                 [\<lparr>button_text = recheck_label, url = None,
                    callback_data = Some BTN_RECHECK\<rparr>]])]"
      by (intro exI [of _ body]) (simp only:)
    with h1 h2 h3 show ?thesis by (intro conjI)
  qed
  have numeric: "\<not> SILENT_FOR_NOT_JOINED numeric_config \<and> JOIN_URL numeric_config = [] \<and>
    (\<forall>handle. REQUIRED_CHAT numeric_config \<noteq> PyStr (ascii ''@'' @ handle)) \<and>
    (\<exists>text. snd (send_join_prompt numeric_config 7 (bot_with (Inr LEFT)) []) =
       [SendMessage 7 text
          (Some [[\<lparr>button_text = recheck_label, url = None,
                    callback_data = Some BTN_RECHECK\<rparr>]])])"
  proof -
    from prompt_join_button [OF n1, of 7 "bot_with (Inr LEFT)" "[]"]
    obtain body markup where
      tr: "snd (send_join_prompt numeric_config 7 (bot_with (Inr LEFT)) []) =
             [SendMessage 7 body (Some markup)]"
      and none: "JOIN_URL numeric_config = [] \<longrightarrow>
        (\<forall>handle. REQUIRED_CHAT numeric_config \<noteq> PyStr (ascii ''@'' @ handle)) \<longrightarrow>
           markup =
             [[\<lparr>button_text = recheck_label, url = None, callback_data = Some BTN_RECHECK\<rparr>]]"
      by blast
    from none n2 n3 have "markup =
             [[\<lparr>button_text = recheck_label, url = None, callback_data = Some BTN_RECHECK\<rparr>]]"
      by (elim impE) assumption+
    with tr have "\<exists>text. snd (send_join_prompt numeric_config 7 (bot_with (Inr LEFT)) []) =
       [SendMessage 7 text
          (Some [[\<lparr>button_text = recheck_label, url = None,
                    callback_data = Some BTN_RECHECK\<rparr>]])]"
      by (intro exI [of _ body]) (simp only:)
    with n1 n2 n3 show ?thesis by (intro conjI)
  qed
  show ?thesis by (rule conjI [OF link conjI [OF handle numeric]])
qed

section \<open>Properties of the recheck button\<close>

text \<open>
  C7. A recheck never enters the protected action. When its lookup returns a joined
  status and silent mode is off, it sends exactly one chat message, to the chat of the
  pressed button: the confirmation, which names \<open>/start\<close> as the command to send again.
\<close>

theorem recheck_joined_confirms_once:
  "filter is_BusinessStart (snd (on_recheck cfg press context)) = [] \<and>
   ((\<exists>chat user status.
       GetChatMember chat user (Inr status) \<in> set (snd (on_recheck cfg press context)) \<and>
       is_joined status) \<and> \<not> SILENT_FOR_NOT_JOINED cfg \<longrightarrow>
    (\<exists>chat_id. message_chat_id (callback_query press) = Some chat_id \<and>
       filter is_message (snd (on_recheck cfg press context)) =
         [SendMessage chat_id confirmed_text None]) \<and>
    sublist (ascii ''/start'') confirmed_text)"
  using confirmed_mentions_start
  by (auto simp add: on_recheck_def io_defs Let_def is_message_def
       split: option.split sum.split exn.split)

theorem recheck_joined_confirms_once_witness:
  "GetChatMember (REQUIRED_CHAT handle_config) 7 (Inr RESTRICTED)
     \<in> set (snd (on_recheck handle_config some_press (context_with (Inr RESTRICTED)))) \<and>
   is_joined RESTRICTED \<and> \<not> SILENT_FOR_NOT_JOINED handle_config \<and>
   filter is_BusinessStart (snd (on_recheck handle_config some_press (context_with (Inr RESTRICTED))))
     = [] \<and>
   (\<exists>chat_id. message_chat_id (callback_query some_press) = Some chat_id \<and>
      filter is_message (snd (on_recheck handle_config some_press (context_with (Inr RESTRICTED)))) =
        [SendMessage chat_id confirmed_text None]) \<and>
   sublist (ascii ''/start'') confirmed_text"
proof -
  have h1: "GetChatMember (REQUIRED_CHAT handle_config) 7 (Inr RESTRICTED)
     \<in> set (snd (on_recheck handle_config some_press (context_with (Inr RESTRICTED))))"
    by (simp add: on_recheck_def io_defs Let_def sample_defs status_defs)
  have h2: "is_joined RESTRICTED"
    by (simp add: status_defs)
  have h3: "\<not> SILENT_FOR_NOT_JOINED handle_config"
    by (simp add: sample_defs)
  from h1 h2 have lookup: "\<exists>chat user status.
       GetChatMember chat user (Inr status)
         \<in> set (snd (on_recheck handle_config some_press (context_with (Inr RESTRICTED)))) \<and>
       is_joined status"
    by blast
  from recheck_joined_confirms_once [of handle_config some_press "context_with (Inr RESTRICTED)"]
    lookup h1 h2 h3
  show ?thesis by blast
qed

text \<open>
  C8. The first call of every recheck is the acknowledgement \<open>q.answer()\<close>, and it is made
  once: the lookup and every message come after it, whatever the lookup gives.
\<close>

theorem recheck_acknowledges_first:
  "\<exists>rest. snd (on_recheck cfg press context) = Answer # rest \<and> filter is_Answer rest = []"
  by (simp add: on_recheck_def io_defs Let_def split: option.split sum.split exn.split)

section \<open>Start-up\<close>

text \<open>
  C9. When \<open>BOT_TOKEN\<close> or \<open>REQUIRED_CHAT\<close> is missing from the environment, or holds
  nothing but white space, the script ends with one of the two \<open>RuntimeError\<close>s of the
  module body and \<open>main()\<close> is not reached.
\<close>

theorem missing_setting_is_fatal:
  assumes "(case environ (ascii ''BOT_TOKEN'') of None \<Rightarrow> True | Some v \<Rightarrow> list_all isspace v) \<or>
           (case environ (ascii ''REQUIRED_CHAT'') of None \<Rightarrow> True | Some v \<Rightarrow> list_all isspace v)"
  shows "run_script py environ = Inl (RuntimeError BOT_TOKEN_unset) \<or>
         run_script py environ = Inl (RuntimeError REQUIRED_CHAT_unset)"
proof -
  have blank: "strip (getenv environ key []) = []"
    if "case environ key of None \<Rightarrow> True | Some v \<Rightarrow> list_all isspace v" for key
    using that by (cases "environ key") (simp_all add: getenv_def strip_Nil_iff)
  from assms have "strip (getenv environ (ascii ''BOT_TOKEN'') []) = [] \<or>
                   strip (getenv environ (ascii ''REQUIRED_CHAT'') []) = []"
    using blank by blast
  then show ?thesis
    by (auto simp add: run_script_def load_config_def Let_def)
qed

theorem missing_setting_is_fatal_witness:
  "((case [ascii ''BOT_TOKEN'' \<mapsto> ascii ''123:abc'', ascii ''REQUIRED_CHAT'' \<mapsto> [0x20, 0x09, 0x3000]]
           (ascii ''BOT_TOKEN'') of None \<Rightarrow> True | Some v \<Rightarrow> list_all isspace v) \<or>
    (case [ascii ''BOT_TOKEN'' \<mapsto> ascii ''123:abc'', ascii ''REQUIRED_CHAT'' \<mapsto> [0x20, 0x09, 0x3000]]
           (ascii ''REQUIRED_CHAT'') of None \<Rightarrow> True | Some v \<Rightarrow> list_all isspace v)) \<and>
   (run_script ascii_builtins
      [ascii ''BOT_TOKEN'' \<mapsto> ascii ''123:abc'', ascii ''REQUIRED_CHAT'' \<mapsto> [0x20, 0x09, 0x3000]]
      = Inl (RuntimeError BOT_TOKEN_unset) \<or>
    run_script ascii_builtins
      [ascii ''BOT_TOKEN'' \<mapsto> ascii ''123:abc'', ascii ''REQUIRED_CHAT'' \<mapsto> [0x20, 0x09, 0x3000]]
      = Inl (RuntimeError REQUIRED_CHAT_unset))"
proof -
  have h: "(case [ascii ''BOT_TOKEN'' \<mapsto> ascii ''123:abc'', ascii ''REQUIRED_CHAT'' \<mapsto> [0x20, 0x09, 0x3000]]
           (ascii ''BOT_TOKEN'') of None \<Rightarrow> True | Some v \<Rightarrow> list_all isspace v) \<or>
    (case [ascii ''BOT_TOKEN'' \<mapsto> ascii ''123:abc'', ascii ''REQUIRED_CHAT'' \<mapsto> [0x20, 0x09, 0x3000]]
           (ascii ''REQUIRED_CHAT'') of None \<Rightarrow> True | Some v \<Rightarrow> list_all isspace v)"
    by (simp add: ascii_def isspace_def)
  from missing_setting_is_fatal [OF h, of ascii_builtins] h show ?thesis by (rule conjI [rotated])
qed

section \<open>Statuses outside the inclusion set\<close>

text \<open>
  C10. \<open>is_joined\<close> is false at every status string other than the four values of the
  inclusion set, and \<open>check_membership\<close> then returns \<open>False\<close> rather than raising.
\<close>

theorem is_joined_false_elsewhere:
  assumes "status \<notin> {MEMBER, ADMINISTRATOR, OWNER, RESTRICTED}"
  shows "\<not> is_joined status \<and>
         (get_chat_member bot' (REQUIRED_CHAT cfg) user_id = Inr status \<longrightarrow>
            fst (check_membership cfg bot' user_id) = Inr False)"
  using assms by (simp add: is_joined_def check_membership_def Let_def)

theorem is_joined_false_elsewhere_witness:
  "ascii ''subscriber'' \<notin> {MEMBER, ADMINISTRATOR, OWNER, RESTRICTED} \<and>
   get_chat_member (bot_with (Inr (ascii ''subscriber''))) (REQUIRED_CHAT handle_config) 7
     = Inr (ascii ''subscriber'') \<and>
   \<not> is_joined (ascii ''subscriber'') \<and>
   fst (check_membership handle_config (bot_with (Inr (ascii ''subscriber''))) 7) = Inr False"
proof -
  have h1: "ascii ''subscriber'' \<notin> {MEMBER, ADMINISTRATOR, OWNER, RESTRICTED}"
    by (simp add: status_defs)
  have h2: "get_chat_member (bot_with (Inr (ascii ''subscriber''))) (REQUIRED_CHAT handle_config) 7
     = Inr (ascii ''subscriber'')"
    by (simp add: sample_defs)
  from is_joined_false_elsewhere [OF h1, of "bot_with (Inr (ascii ''subscriber''))" handle_config 7]
    h1 h2
  show ?thesis by blast
qed

end
